theory Spec2Isabelle
  imports Complex_Main "HOL-Library.Sublist"
begin

section \<open>Pyriod: the signal solution engine\<close>

text \<open>
  A shallow embedding of \<^verbatim>\<open>src/Pyriod/Pyriod.py\<close>: the table of signals
  (\<^verbatim>\<open>self.values\<close>, a pandas DataFrame), the operations that add, combine, delete
  and fit signals, the derived series and periodograms, and the frequency sampling set
  up by the constructor.

  Python floats are idealised as \<^typ>\<open>real\<close>: rounding, infinities and NaN values of
  frequencies, amplitudes and phases are outside the model. A NaN cell of an
  uncertainty column is \<^term>\<open>None\<close>. Widgets, plots and the log are not modelled;
  third-party numerical routines (lightkurve's periodogram, lmfit's solver) are
  parameters, collected in the record \<open>library\<close>.
\<close>

subsection \<open>Errors and outcomes\<close>

datatype error = NameError | SyntaxError | ZeroDivisionError | TypeError | KeyError | ValueError

text \<open>
  A method either returns or raises. The state is returned in both cases: an exception
  does not undo the assignments made before it.
\<close>

datatype outcome = Returned | Raised error

subsection \<open>The table of signals\<close>

text \<open>
  One row of \<^verbatim>\<open>self.values\<close>, with the columns of \<^verbatim>\<open>Pyriod.columns\<close>. The frame is
  indexed by the signal's label; pandas keeps the rows in insertion order and accepts
  a label that is already present, so the frame is a list of labelled rows.
\<close>

record entry =
  include' :: bool
  freq :: real
  fixfreq :: bool
  freqerr :: "real option"
  amp :: real
  fixamp :: bool
  amperr :: "real option"
  phase :: real
  fixphase :: bool
  phaseerr :: "real option"
  combo :: "bool option"

type_synonym dataframe = "(string \<times> entry) list"

record lightcurve =
  time :: "real list"
  flux :: "real list"

text \<open>
  The state of a \<^verbatim>\<open>Pyriod\<close> object. \<^verbatim>\<open>self.amp_conversion\<close> is looked up from
  \<^verbatim>\<open>self.amp_unit\<close> in the constructor, in the dictionary
  \<^verbatim>\<open>{'relative':1e0, 'percent':1e2, 'ppt':1e3, 'ppm':1e6}\<close>, and neither is assigned
  again: the state holds the unit, and the factor is read from it.
\<close>

datatype amp_unit = Relative | Percent | Ppt | Ppm

fun amp_conversion_of :: "amp_unit \<Rightarrow> real" where
  "amp_conversion_of Relative = 1"
| "amp_conversion_of Percent = 100"
| "amp_conversion_of Ppt = 1000"
| "amp_conversion_of Ppm = 1000000"

record pyriod =
  oversample_factor :: int
  freq_conversion :: real
  amp_unit :: amp_unit
  lc_orig :: lightcurve
  tshift :: real
  lc_model_sampled :: lightcurve
  lc_model_observed :: lightcurve
  lc_resid :: lightcurve
  fres :: real
  nyq :: real
  freqs :: "real list"
  per_orig :: "real list"
  per_model :: "real list"
  per_resid :: "real list"
  interpls :: "real \<Rightarrow> real"
  values' :: dataframe

definition amp_conversion :: "pyriod \<Rightarrow> real" where
  "amp_conversion s = amp_conversion_of (amp_unit s)"

definition index :: "dataframe \<Rightarrow> string list" where
  "index df = map fst df"

subsection \<open>Formatting\<close>

text \<open>\<^verbatim>\<open>"{}".format(n)\<close> for a non-negative integer: its decimal digits.\<close>

definition digit_char :: "nat \<Rightarrow> char" where
  "digit_char d = ''0123456789'' ! (d mod 10)"

fun str_nat :: "nat \<Rightarrow> string" where
  "str_nat n = (if n < 10 then [digit_char n] else str_nat (n div 10) @ [digit_char (n mod 10)])"

declare str_nat.simps [simp del]

subsection \<open>Python strings\<close>

text \<open>
  \<^verbatim>\<open>s.replace(old, new)\<close> replaces every occurrence of \<^verbatim>\<open>old\<close>, scanning from the left
  and continuing behind each replacement; an empty \<^verbatim>\<open>old\<close> matches between all
  characters.
\<close>

fun replace_scan :: "string \<Rightarrow> string \<Rightarrow> string \<Rightarrow> string" where
  "replace_scan old new [] = []"
| "replace_scan old new (c # cs) =
     (if old \<noteq> [] \<and> prefix old (c # cs)
      then new @ replace_scan old new (drop (length old) (c # cs))
      else c # replace_scan old new cs)"

definition replace :: "string \<Rightarrow> string \<Rightarrow> string \<Rightarrow> string" where
  "replace s old new =
     (if old = [] then new @ concat (map (\<lambda>c. c # new) s) else replace_scan old new s)"

text \<open>\<^verbatim>\<open>re.split('\+|\-|\*|\/', s)\<close>: the pieces between the operator characters.\<close>

definition is_operator :: "char \<Rightarrow> bool" where
  "is_operator c = (c \<in> set ''+-*/'')"

fun re_split :: "string \<Rightarrow> string list" where
  "re_split [] = [[]]"
| "re_split (c # cs) =
     (if is_operator c then [] # re_split cs
      else (case re_split cs of [] \<Rightarrow> [[c]] | p # ps \<Rightarrow> (c # p) # ps))"

text \<open>
  \<^verbatim>\<open>str(x)\<close> for a float, in positional notation: the integer part, a point and the
  decimals, at least one and at most 17 of them. Python prints the shortest decimal
  that reads back as the same float; for a value with a short decimal expansion
  (\<open>3.0\<close>, \<open>3.5\<close>, \<open>0.125\<close>) that is this string. Exponent notation, which Python
  uses for very large and very small floats, is not modelled.
\<close>

fun frac_digits :: "nat \<Rightarrow> real \<Rightarrow> string" where
  "frac_digits 0 r = []"
| "frac_digits (Suc n) r =
     (let d = \<lfloor>10 * r\<rfloor>; r' = 10 * r - of_int d
      in digit_char (nat d) # (if r' = 0 then [] else frac_digits n r'))"

definition str_float :: "real \<Rightarrow> string" where
  "str_float x =
     (if x < 0 then ''-'' else []) @ str_nat (nat \<lfloor>\<bar>x\<bar>\<rfloor>) @ ''.'' @
     frac_digits 17 (\<bar>x\<bar> - of_int \<lfloor>\<bar>x\<bar>\<rfloor>)"

subsection \<open>add_signal\<close>

text \<open>
  \<^verbatim>\<open>add_signal(freq, amp=None, phase=None, fixfreq=False, fixamp=False,
  fixphase=False, include=True, index=None)\<close>. The appended frame names seven of the
  eleven columns; the others (the three uncertainties and \<^verbatim>\<open>combo\<close>) are NaN.
  The method has no check on \<^verbatim>\<open>freq\<close> and no \<^verbatim>\<open>raise\<close>. The statements after the
  append refresh the dropdown, the displayed table and the markers and write to the
  log; they do not touch \<^verbatim>\<open>self.values\<close> and are not modelled.
\<close>

definition add_signal ::
  "pyriod \<Rightarrow> real \<Rightarrow> real option \<Rightarrow> real option \<Rightarrow> bool \<Rightarrow> bool \<Rightarrow> bool \<Rightarrow> bool \<Rightarrow>
   string option \<Rightarrow> outcome \<times> pyriod" where
  "add_signal s freq0 amp0 phase0 fixfreq0 fixamp0 fixphase0 include0 index0 =
     (let amp1 = (case amp0 of None \<Rightarrow> 1 | Some a \<Rightarrow> a);
          phase1 = (case phase0 of None \<Rightarrow> 0.5 | Some p \<Rightarrow> p);
          index1 = (case index0 of None \<Rightarrow> ''f'' @ str_nat (length (values' s)) | Some i \<Rightarrow> i);
          toappend = (index1,
            \<lparr>include' = include0, freq = freq0, fixfreq = fixfreq0, freqerr = None,
             amp = amp1 / amp_conversion s, fixamp = fixamp0, amperr = None,
             phase = phase1, fixphase = fixphase0, phaseerr = None, combo = None\<rparr>)
      in (Returned, s\<lparr>values' := values' s @ [toappend]\<rparr>))"

subsection \<open>delete_rows\<close>

text \<open>
  \<^verbatim>\<open>self.values.drop(indices)\<close> raises KeyError when a label is not in the index;
  otherwise it removes every row that carries one of the labels.
\<close>

definition drop_rows :: "string list \<Rightarrow> dataframe \<Rightarrow> dataframe" where
  "drop_rows indices df = filter (\<lambda>row. fst row \<notin> set indices) df"

definition delete_rows :: "pyriod \<Rightarrow> string list \<Rightarrow> outcome \<times> pyriod" where
  "delete_rows s indices =
     (if list_all (\<lambda>i. i \<in> set (index (values' s))) indices
      then (Returned, s\<lparr>values' := drop_rows indices (values' s)\<rparr>)
      else (Raised KeyError, s))"

subsection \<open>Python's eval on arithmetic expressions\<close>

text \<open>
  \<^verbatim>\<open>eval(expression)\<close> is embedded for the expressions \<^verbatim>\<open>add_combination\<close> hands to it:
  decimal literals and names, joined by \<open>+ - * /\<close> with Python's precedence, with
  unary signs. A name is looked up in the scope in which \<^verbatim>\<open>eval\<close> is called. True
  division is in force (\<^verbatim>\<open>from __future__ import division\<close>). A value that is not a
  number (a string, a list, \<^verbatim>\<open>None\<close>, an object) is \<open>Other\<close>, and arithmetic on it is a
  TypeError here. Anything else Python's grammar accepts (parentheses, \<^verbatim>\<open>**\<close>,
  calls, attribute access, exponent literals) is outside this fragment and is reported
  as a SyntaxError; an integer literal with a leading zero, which Python 3 refuses, is
  read as decimal. No statement below rests on either answer.
\<close>

datatype token = Num real | Name string | Op char

definition is_digit :: "char \<Rightarrow> bool" where
  "is_digit c = (c \<in> set ''0123456789'')"

definition is_name_char :: "char \<Rightarrow> bool" where
  "is_name_char c =
     (c \<in> set ''abcdefghijklmnopqrstuvwxyzABCDEFGHIJKLMNOPQRSTUVWXYZ_0123456789'')"

definition digit_val :: "char \<Rightarrow> nat" where
  "digit_val c = length (takeWhile (\<lambda>d. d \<noteq> c) ''0123456789'')"

definition nat_of_digits :: "string \<Rightarrow> nat" where
  "nat_of_digits ds = foldl (\<lambda>n c. 10 * n + digit_val c) 0 ds"

definition number_literal :: "string \<Rightarrow> string \<Rightarrow> real" where
  "number_literal ip fp = real (nat_of_digits ip) + real (nat_of_digits fp) / 10 ^ length fp"

definition scan_number :: "string \<Rightarrow> string \<times> string \<times> string" where
  "scan_number s =
     (let ip = takeWhile is_digit s; r1 = dropWhile is_digit s
      in case r1 of
           [] \<Rightarrow> (ip, [], [])
         | d # r \<Rightarrow> if d = CHR ''.'' then (ip, takeWhile is_digit r, dropWhile is_digit r)
                    else (ip, [], r1))"

lemma scan_number_length:
  "scan_number s = (ip, fp, rest) \<Longrightarrow> length ip + length fp + length rest \<le> length s"
proof -
  assume a: "scan_number s = (ip, fp, rest)"
  have s: "length (takeWhile is_digit s) + length (dropWhile is_digit s) = length s"
    by (metis length_append takeWhile_dropWhile_id)
  show ?thesis
  proof (cases "dropWhile is_digit s")
    case Nil
    with a s show ?thesis by (auto simp: scan_number_def Let_def)
  next
    case (Cons d r)
    have r: "length (takeWhile is_digit r) + length (dropWhile is_digit r) = length r"
      by (metis length_append takeWhile_dropWhile_id)
    have ls: "length s = length (takeWhile is_digit s) + Suc (length r)"
      using s Cons by simp
    show ?thesis
    proof (cases "d = CHR ''.''")
      case True
      with a Cons have "ip = takeWhile is_digit s" "fp = takeWhile is_digit r"
        "rest = dropWhile is_digit r"
        by (auto simp: scan_number_def Let_def)
      with ls r show ?thesis by simp
    next
      case False
      with a Cons have "ip = takeWhile is_digit s" "fp = []" "rest = d # r"
        by (auto simp: scan_number_def Let_def)
      with ls show ?thesis by simp
    qed
  qed
qed

function lex :: "string \<Rightarrow> error + token list" where
  "lex [] = Inr []"
| "lex (c # cs) =
     (if is_operator c then map_sum id (Cons (Op c)) (lex cs)
      else if is_digit c \<or> c = CHR ''.'' then
        (case scan_number (c # cs) of (ip, fp, rest) \<Rightarrow>
           if ip = [] \<and> fp = [] then Inl SyntaxError
           else if rest \<noteq> [] \<and> is_name_char (hd rest) then Inl SyntaxError
           else map_sum id (Cons (Num (number_literal ip fp))) (lex rest))
      else if is_name_char c then
        map_sum id (Cons (Name (takeWhile is_name_char (c # cs))))
          (lex (dropWhile is_name_char (c # cs)))
      else Inl SyntaxError)"
  by pat_completeness auto
termination
proof (relation "measure length", goal_cases)
  case 1
  show ?case by simp
next
  case (2 c cs)
  show ?case by simp
next
  case (3 c cs ip y fp rest)
  then have "scan_number (c # cs) = (ip, fp, rest)" by simp
  from scan_number_length [OF this] 3(5) show ?case by (cases ip; cases fp) auto
next
  case (4 c cs)
  then show ?case using length_dropWhile_le [of is_name_char cs] by simp
qed

datatype ast = Lit real | Var string | Pos ast | Neg ast | Bin char ast ast

fun parse_factor :: "token list \<Rightarrow> (ast \<times> token list) option" where
  "parse_factor [] = None"
| "parse_factor (Num r # ts) = Some (Lit r, ts)"
| "parse_factor (Name n # ts) = Some (Var n, ts)"
| "parse_factor (Op c # ts) =
     (if c = CHR ''+'' then map_option (apfst Pos) (parse_factor ts)
      else if c = CHR ''-'' then map_option (apfst Neg) (parse_factor ts)
      else None)"

lemma parse_factor_length: "parse_factor ts = Some (e, ts') \<Longrightarrow> length ts' < length ts"
  by (induction ts arbitrary: e rule: parse_factor.induct) (auto split: if_splits)

function parse_term_rest :: "ast \<Rightarrow> token list \<Rightarrow> (ast \<times> token list) option" where
  "parse_term_rest e (Op c # ts) =
     (if c = CHR ''*'' \<or> c = CHR ''/'' then
        (case parse_factor ts of None \<Rightarrow> None
         | Some (f, ts') \<Rightarrow> parse_term_rest (Bin c e f) ts')
      else Some (e, Op c # ts))"
| "parse_term_rest e [] = Some (e, [])"
| "parse_term_rest e (Num r # ts) = Some (e, Num r # ts)"
| "parse_term_rest e (Name n # ts) = Some (e, Name n # ts)"
  by pat_completeness auto
termination
  by (relation "measure (\<lambda>(e, ts). length ts)") (auto dest: parse_factor_length)

definition parse_term :: "token list \<Rightarrow> (ast \<times> token list) option" where
  "parse_term ts =
     (case parse_factor ts of None \<Rightarrow> None | Some (f, ts') \<Rightarrow> parse_term_rest f ts')"

lemma parse_term_rest_length:
  "parse_term_rest e ts = Some (e', ts') \<Longrightarrow> length ts' \<le> length ts"
proof (induction e ts arbitrary: e' rule: parse_term_rest.induct)
  case (1 e c ts)
  show ?case
  proof (cases "c = CHR ''*'' \<or> c = CHR ''/''")
    case True
    with 1(2) obtain f r where pf: "parse_factor ts = Some (f, r)"
      and rest: "parse_term_rest (Bin c e f) r = Some (e', ts')"
      by (auto split: option.splits)
    from 1(1) [OF True pf refl rest] parse_factor_length [OF pf]
    show ?thesis by simp
  next
    case False
    with 1(2) show ?thesis by simp
  qed
qed auto

lemma parse_term_length: "parse_term ts = Some (e, ts') \<Longrightarrow> length ts' < length ts"
  by (auto simp: parse_term_def split: option.splits
      dest!: parse_factor_length parse_term_rest_length)

function parse_expr_rest :: "ast \<Rightarrow> token list \<Rightarrow> ast option" where
  "parse_expr_rest e [] = Some e"
| "parse_expr_rest e (Op c # ts) =
     (if c = CHR ''+'' \<or> c = CHR ''-'' then
        (case parse_term ts of None \<Rightarrow> None
         | Some (t, ts') \<Rightarrow> parse_expr_rest (Bin c e t) ts')
      else None)"
| "parse_expr_rest e (Num r # ts) = None"
| "parse_expr_rest e (Name n # ts) = None"
  by pat_completeness auto
termination
  by (relation "measure (\<lambda>(e, ts). length ts)") (auto dest: parse_term_length)

definition parse_expr :: "token list \<Rightarrow> ast option" where
  "parse_expr ts =
     (case parse_term ts of None \<Rightarrow> None | Some (t, ts') \<Rightarrow> parse_expr_rest t ts')"

datatype pyval = Number real | Other

type_synonym scope = "(string \<times> pyval) list"

fun arith :: "char \<Rightarrow> pyval \<Rightarrow> pyval \<Rightarrow> error + pyval" where
  "arith c (Number a) (Number b) =
     (if c = CHR ''+'' then Inr (Number (a + b))
      else if c = CHR ''-'' then Inr (Number (a - b))
      else if c = CHR ''*'' then Inr (Number (a * b))
      else if b = 0 then Inl ZeroDivisionError
      else Inr (Number (a / b)))"
| "arith c _ _ = Inl TypeError"

fun eval_expr :: "scope \<Rightarrow> ast \<Rightarrow> error + pyval" where
  "eval_expr sc (Lit r) = Inr (Number r)"
| "eval_expr sc (Var n) = (case map_of sc n of None \<Rightarrow> Inl NameError | Some v \<Rightarrow> Inr v)"
| "eval_expr sc (Pos e) =
     (case eval_expr sc e of Inl err \<Rightarrow> Inl err
      | Inr (Number a) \<Rightarrow> Inr (Number a)
      | Inr Other \<Rightarrow> Inl TypeError)"
| "eval_expr sc (Neg e) =
     (case eval_expr sc e of Inl err \<Rightarrow> Inl err
      | Inr (Number a) \<Rightarrow> Inr (Number (- a))
      | Inr Other \<Rightarrow> Inl TypeError)"
| "eval_expr sc (Bin c l r) =
     (case eval_expr sc l of Inl err \<Rightarrow> Inl err
      | Inr a \<Rightarrow> (case eval_expr sc r of Inl err \<Rightarrow> Inl err | Inr b \<Rightarrow> arith c a b))"

definition eval' :: "scope \<Rightarrow> string \<Rightarrow> error + pyval" where
  "eval' sc src =
     (case lex src of Inl err \<Rightarrow> Inl err
      | Inr ts \<Rightarrow> (case parse_expr ts of None \<Rightarrow> Inl SyntaxError | Some e \<Rightarrow> eval_expr sc e))"

subsection \<open>add_combination\<close>

text \<open>
  Modelled from the spec: \<^verbatim>\<open>subfreq\<close> is imported from \<^verbatim>\<open>pyquist\<close>, a module of the
  package that is not among the sources. Section 4.5 describes it: a frequency in
  \<open>[0, nyquist]\<close> is returned unchanged, any other is reflected across 0 and the
  Nyquist boundary until it lies in that band. The source takes element 0 of the array
  it returns.
\<close>

definition subfreq :: "real \<Rightarrow> real \<Rightarrow> real" where
  "subfreq f fnyq =
     (if 0 \<le> f \<and> f \<le> fnyq then f
      else (let r = \<bar>f\<bar> - 2 * fnyq * of_int \<lfloor>\<bar>f\<bar> / (2 * fnyq)\<rfloor>
            in if r \<le> fnyq then r else 2 * fnyq - r))"

text \<open>
  \<^verbatim>\<open>self.values.loc[key, 'freq']\<close> is a number when one row carries the label. With
  several such rows pandas answers with a Series.
\<close>

definition loc :: "dataframe \<Rightarrow> string \<Rightarrow> entry option" where
  "loc df key = (case filter (\<lambda>row. fst row = key) df of [row] \<Rightarrow> Some (snd row) | _ \<Rightarrow> None)"

text \<open>
  The loop \<^verbatim>\<open>for key in keys: expression = expression.replace(key, str(...))\<close>. A
  Series pasted into the expression makes it a text of several lines, which \<^verbatim>\<open>eval\<close>
  refuses: the result is then \<open>None\<close>. Python does not fix the order in which a set is
  traversed; the model takes the keys in the order of their first occurrence.
\<close>

fun substitute :: "dataframe \<Rightarrow> string list \<Rightarrow> string \<Rightarrow> string option" where
  "substitute df [] expression = Some expression"
| "substitute df (key # keys) expression =
     (case loc df key of
        None \<Rightarrow> None
      | Some row \<Rightarrow> substitute df keys (replace expression key (str_float (freq row))))"

text \<open>
  The names \<^verbatim>\<open>eval\<close> sees in \<^verbatim>\<open>add_combination\<close>: the method's parameters and local
  variables, then the names bound at module level (the imports, \<^verbatim>\<open>sin\<close>, \<^verbatim>\<open>Pyriod\<close>),
  then the built-in constants. A Boolean counts as 0 or 1 in arithmetic, and so does
  \<^verbatim>\<open>__debug__\<close>, which is true. \<^verbatim>\<open>key\<close> is bound only when the loop has run. The
  built-in functions, types and exceptions, none of them a number, are left out (a
  name such as \<^verbatim>\<open>abs\<close> is unbound here and a function object in Python), as is
  \<^verbatim>\<open>part\<close>, which only Python 2 keeps bound after the list comprehension.
\<close>

definition module_names :: "string list" where
  "module_names =
     [''division'', ''print_function'', ''sys'', ''np'', ''itertools'', ''re'', ''pd'',
      ''interp1d'', ''u'', ''LombScargle'', ''lk'', ''Model'', ''Parameters'', ''display'',
      ''plt'', ''widgets'', ''HBox'', ''VBox'', ''qgrid'', ''logging'', ''StringIO'',
      ''subfreq'', ''sin'', ''Pyriod'']"

definition number_of_bool :: "bool \<Rightarrow> pyval" where
  "number_of_bool b = Number (if b then 1 else 0)"

definition number_or_none :: "real option \<Rightarrow> pyval" where
  "number_or_none v = (case v of None \<Rightarrow> Other | Some x \<Rightarrow> Number x)"

definition locals :: "real option \<Rightarrow> real option \<Rightarrow> bool \<Rightarrow> bool \<Rightarrow> bool \<Rightarrow> string list \<Rightarrow> scope" where
  "locals amp0 phase0 fixfreq0 fixamp0 fixphase0 keys =
     [(''self'', Other), (''combostr'', Other), (''amp'', number_or_none amp0),
      (''phase'', number_or_none phase0), (''fixfreq'', number_of_bool fixfreq0),
      (''fixamp'', number_of_bool fixamp0), (''fixphase'', number_of_bool fixphase0),
      (''index'', Other), (''parts'', Other), (''keys'', Other), (''expression'', Other)]
     @ (if keys = [] then [] else [(''key'', Other)])
     @ map (\<lambda>name. (name, Other)) module_names
     @ [(''True'', Number 1), (''False'', Number 0), (''None'', Other),
        (''__debug__'', Number 1)]"

text \<open>
  \<^verbatim>\<open>add_combination(combostr, amp=None, phase=None, fixfreq=False, fixamp=False,
  fixphase=False, index=None)\<close>. Only the evaluated frequency, the amplitude and the
  expression reach \<^verbatim>\<open>add_signal\<close>. An exception of \<^verbatim>\<open>eval\<close> leaves the method before
  \<^verbatim>\<open>add_signal\<close> is called. A result of \<^verbatim>\<open>eval\<close> that is not a number cannot be a
  frequency of this model, whose frequencies are reals: the model stops there with the
  TypeError that the arithmetic of \<^verbatim>\<open>subfreq\<close> raises when no amplitude is given. (With
  an amplitude given the code goes on and appends a row whose frequency is not a
  number; no statement below is about such a call.)
\<close>

definition add_combination ::
  "pyriod \<Rightarrow> string \<Rightarrow> real option \<Rightarrow> real option \<Rightarrow> bool \<Rightarrow> bool \<Rightarrow> bool \<Rightarrow> string option \<Rightarrow>
   outcome \<times> pyriod" where
  "add_combination s combostr0 amp0 phase0 fixfreq0 fixamp0 fixphase0 index0 =
     (let combostr = replace combostr0 '' '' [];
          parts = re_split combostr;
          keys = remdups (filter (\<lambda>part. part \<in> set (index (values' s))) parts)
      in case substitute (values' s) keys combostr of
           None \<Rightarrow> (Raised SyntaxError, s)
         | Some expression \<Rightarrow>
             (case eval' (locals amp0 phase0 fixfreq0 fixamp0 fixphase0 keys) expression of
                Inl err \<Rightarrow> (Raised err, s)
              | Inr Other \<Rightarrow> (Raised TypeError, s)
              | Inr (Number freqval) \<Rightarrow>
                  (let amp1 = (case amp0 of None \<Rightarrow> interpls s (subfreq freqval (nyq s))
                               | Some a \<Rightarrow> a)
                   in add_signal s freqval (Some amp1) None False False False True
                        (Some combostr))))"

subsection \<open>Third-party routines\<close>

text \<open>
  What the code calls in numpy, lightkurve, scipy and lmfit, as parameters:
  \<^item> \<open>arange_length start stop step\<close>: the number of points of
    \<^verbatim>\<open>np.arange(start, stop, step)\<close>. numpy computes it in double precision, as the
    ceiling of the rounded quotient \<open>(stop - start) / step\<close>; where the quotient is an
    integer up to rounding the count differs by one from the ceiling of the exact
    quotient (on the times 0, 1, 2, 3, 4 with oversampling 3 the quotient is
    7.000000000000001 and the grid has 8 points, not 7). No formula over the reals
    gives this number, so it is left to numpy;
  \<^item> \<open>to_periodogram lc frequency\<close>: the amplitude spectrum of a light curve on a
    frequency grid (\<^verbatim>\<open>lc.to_periodogram(normalization='amplitude', ...)\<close>);
  \<^item> \<open>interp1d xs ys\<close>: the interpolant through the points \<open>(xs, ys)\<close>;
  \<^item> \<open>fit model data params x\<close>: what \<^verbatim>\<open>model.fit(data, params, x=x)\<close> answers for the sum
    of the sinusoids whose parameter prefixes are listed in \<open>model\<close>, or the exception
    it raises. lmfit does not raise when the solver fails to converge: it answers with
    \<^verbatim>\<open>success\<close> false. It raises, for one, when the expression that ties a parameter
    names a parameter that does not exist.
\<close>

record parameter =
  value' :: real
  vary :: bool
  expr :: "string option"
  stderr :: "real option"

type_synonym parameters = "(string \<times> parameter) list"

record modelresult =
  success :: bool
  params :: parameters

record library =
  arange_length :: "real \<Rightarrow> real \<Rightarrow> real \<Rightarrow> nat"
  to_periodogram :: "lightcurve \<Rightarrow> real list \<Rightarrow> real list"
  interp1d :: "real list \<Rightarrow> real list \<Rightarrow> real \<Rightarrow> real"
  fit :: "string list \<Rightarrow> real list \<Rightarrow> parameters \<Rightarrow> real list \<Rightarrow> error + modelresult"

subsection \<open>The model and the derived series\<close>

text \<open>
  \<^verbatim>\<open>sin(x, freq, amp, phase)\<close>, the sinusoid that is fitted, over the reals. The code
  computes it in double precision, where identities of the sine hold up to rounding
  only; the statements below use that the samples are a function of the table and of
  the times, and no value of a sample.
\<close>

definition sin' :: "real \<Rightarrow> real \<Rightarrow> real \<Rightarrow> real \<Rightarrow> real" where
  "sin' x freq0 amp0 phase0 = amp0 * sin (2 * pi * (freq0 * x + phase0))"

definition np_mean :: "real list \<Rightarrow> real" where
  "np_mean xs = sum_list xs / real (length xs)"

text \<open>\<^verbatim>\<open>lc += sin(lc.time, freq, amp, phase)\<close>: the samples are added to the flux.\<close>

definition add_sin :: "lightcurve \<Rightarrow> real \<Rightarrow> real \<Rightarrow> real \<Rightarrow> lightcurve" where
  "add_sin lc freq0 amp0 phase0 =
     lc\<lparr>flux := map2 (+) (flux lc) (map (\<lambda>x. sin' x freq0 amp0 phase0) (time lc))\<rparr>"

definition subtract :: "lightcurve \<Rightarrow> lightcurve \<Rightarrow> lightcurve" where
  "subtract a b = a\<lparr>flux := map2 (-) (flux a) (flux b)\<rparr>"

text \<open>
  The loop of \<^verbatim>\<open>_update_lcs\<close> over \<^verbatim>\<open>self.values.index\<close>. It adds the sinusoid of every
  row, included or not. \<^verbatim>\<open>float(self.values.loc[prefix, 'freq'])\<close> is a TypeError when
  the label stands on several rows; the series keep what was added before.
\<close>

fun add_signals ::
  "pyriod \<Rightarrow> string list \<Rightarrow> lightcurve \<times> lightcurve \<Rightarrow> outcome \<times> lightcurve \<times> lightcurve" where
  "add_signals s [] lcs = (Returned, lcs)"
| "add_signals s (prefix' # rest) lcs =
     (case loc (values' s) prefix' of
        None \<Rightarrow> (Raised TypeError, lcs)
      | Some row \<Rightarrow>
          add_signals s rest
            (add_sin (fst lcs) (freq row * freq_conversion s) (amp row) (phase row),
             add_sin (snd lcs) (freq row * freq_conversion s) (amp row) (phase row)))"

definition update_lcs :: "pyriod \<Rightarrow> outcome \<times> pyriod" where
  "update_lcs s =
     (let m = np_mean (flux (lc_orig s));
          sampled = (lc_model_sampled s)\<lparr>flux := replicate (length (time (lc_model_sampled s))) m\<rparr>;
          observed = (lc_model_observed s)\<lparr>flux := replicate (length (time (lc_orig s))) m\<rparr>
      in case add_signals s (index (values' s)) (sampled, observed) of
           (Raised err, lcs) \<Rightarrow>
             (Raised err, s\<lparr>lc_model_sampled := fst lcs, lc_model_observed := snd lcs\<rparr>)
         | (Returned, lcs) \<Rightarrow>
             (Returned, s\<lparr>lc_model_sampled := fst lcs, lc_model_observed := snd lcs,
                            lc_resid := subtract (lc_orig s) (snd lcs)\<rparr>))"

text \<open>
  \<^verbatim>\<open>_update_pers\<close>: the periodograms of the model and of the residuals, on
  \<^verbatim>\<open>self.freqs\<close>.
\<close>

definition update_pers :: "library \<Rightarrow> pyriod \<Rightarrow> pyriod" where
  "update_pers lib s =
     s\<lparr>per_model := map (\<lambda>p. p * amp_conversion s)
                       (to_periodogram lib (lc_model_observed s) (freqs s)),
       per_resid := map (\<lambda>p. p * amp_conversion s)
                       (to_periodogram lib (lc_resid s) (freqs s))\<rparr>"

subsection \<open>The table and its display copy\<close>

text \<open>
  The qgrid widget shows the table with amplitudes in the display unit.
  \<^verbatim>\<open>_convert_values_to_qgrid\<close> and \<^verbatim>\<open>_convert_qgrid_to_values\<close> convert between the two;
  the first also drops the column \<^verbatim>\<open>combo\<close>, which is always NaN.
\<close>

definition convert_values_to_qgrid :: "pyriod \<Rightarrow> dataframe" where
  "convert_values_to_qgrid s =
     map (\<lambda>row. (fst row, (snd row)\<lparr>amp := amp (snd row) * amp_conversion s,
                    amperr := map_option (\<lambda>e. e * amp_conversion s) (amperr (snd row))\<rparr>))
       (values' s)"

definition convert_qgrid_to_values :: "pyriod \<Rightarrow> dataframe \<Rightarrow> dataframe" where
  "convert_qgrid_to_values s changed_df =
     map (\<lambda>row. (fst row, (snd row)\<lparr>amp := amp (snd row) / amp_conversion s,
                    amperr := map_option (\<lambda>e. e / amp_conversion s) (amperr (snd row))\<rparr>))
       changed_df"

text \<open>
  \<^verbatim>\<open>_update_values_from_qgrid\<close>. The frame \<open>changed_df\<close> is what the widget answers to
  \<^verbatim>\<open>get_changed_df()\<close>: the displayed table with the user's edits. The table is
  replaced by it; then the series and the periodograms are recomputed. No frequency
  is recomputed from an expression.
\<close>

definition update_values_from_qgrid :: "library \<Rightarrow> pyriod \<Rightarrow> dataframe \<Rightarrow> outcome \<times> pyriod" where
  "update_values_from_qgrid lib s changed_df =
     (case update_lcs (s\<lparr>values' := convert_qgrid_to_values s changed_df\<rparr>) of
        (Raised err, s1) \<Rightarrow> (Raised err, s1)
      | (Returned, s1) \<Rightarrow> (Returned, update_pers lib s1))"

text \<open>An edit of one frequency cell of the displayed table.\<close>

definition edit_freq :: "string \<Rightarrow> real \<Rightarrow> dataframe \<Rightarrow> dataframe" where
  "edit_freq key v df = map (\<lambda>row. if fst row = key then (fst row, (snd row)\<lparr>freq := v\<rparr>) else row) df"

subsection \<open>fit_model\<close>

text \<open>\<^verbatim>\<open>isindep = lambda key: key[1:].isdigit()\<close>.\<close>

definition isindep :: "string \<Rightarrow> bool" where
  "isindep key = (tl key \<noteq> [] \<and> list_all is_digit (tl key))"

text \<open>\<^verbatim>\<open>params[name] = p\<close> on the ordered dictionary of parameters.\<close>

definition set_param :: "string \<Rightarrow> parameter \<Rightarrow> parameters \<Rightarrow> parameters" where
  "set_param name p ps =
     (if name \<in> set (map fst ps)
      then map (\<lambda>q. if fst q = name then (name, p) else q) ps
      else ps @ [(name, p)])"

text \<open>
  The first loop of \<^verbatim>\<open>fit_model\<close>: three parameters per included signal, the frequency
  held fixed. An independent signal keeps its label as prefix; a combination gets the
  prefix \<open>c0\<close>, \<open>c1\<close>, ... and its frequency is tied to the expression in which every
  label is followed by \<open>freq\<close>. \<^verbatim>\<open>self.values.freq[prefix]\<close> is a Series when the label
  stands on several rows, which a parameter cannot take as its value. The value of a
  tied parameter is lmfit's to compute from the expression whenever it is read (8.0
  for \<open>f1freq+f2freq\<close> over 3.0 and 5.0); the field holds 0 in its place, and \<open>expr\<close>
  says what it stands for. Whether the names in the
  expression are parameters of the model is checked by lmfit, not here.
\<close>

fun setup_params ::
  "pyriod \<Rightarrow> string list \<Rightarrow> nat \<Rightarrow> parameters \<Rightarrow> (string \<times> string) list \<Rightarrow>
   error + parameters \<times> (string \<times> string) list" where
  "setup_params s [] cnum ps prefixmap = Inr (ps, prefixmap)"
| "setup_params s (prefix' # rest) cnum ps prefixmap =
     (case loc (values' s) prefix' of
        None \<Rightarrow> Inl ValueError
      | Some row \<Rightarrow>
          (if isindep prefix' then
             setup_params s rest cnum
               (set_param (prefix' @ ''phase'')
                  \<lparr>value' = phase row, vary = \<not> fixphase row, expr = None, stderr = None\<rparr>
               (set_param (prefix' @ ''amp'')
                  \<lparr>value' = amp row, vary = \<not> fixamp row, expr = None, stderr = None\<rparr>
               (set_param (prefix' @ ''freq'')
                  \<lparr>value' = freq_conversion s * freq row, vary = False, expr = None,
                   stderr = None\<rparr> ps)))
               (prefixmap @ [(prefix', prefix')])
           else
             (let useprefix = ''c'' @ str_nat cnum;
                  parts = re_split prefix';
                  keys = remdups (filter (\<lambda>part. part \<in> set (index (values' s))) parts);
                  expression = foldl (\<lambda>ex key. replace ex key (key @ ''freq'')) prefix' keys
              in setup_params s rest (cnum + 1)
                   (set_param (useprefix @ ''phase'')
                      \<lparr>value' = phase row, vary = \<not> fixphase row, expr = None, stderr = None\<rparr>
                   (set_param (useprefix @ ''amp'')
                      \<lparr>value' = amp row, vary = \<not> fixamp row, expr = None, stderr = None\<rparr>
                   (set_param (useprefix @ ''freq'')
                      \<lparr>value' = 0, vary = False, expr = Some expression, stderr = None\<rparr> ps)))
                   (prefixmap @ [(prefix', useprefix)]))))"

text \<open>
  The second loop: the frequency of an independent signal is released unless the user
  fixed it. Amplitude and phase are set to the values they have.
\<close>

fun release_freqs ::
  "pyriod \<Rightarrow> (string \<times> string) list \<Rightarrow> string list \<Rightarrow> parameters \<Rightarrow> error + parameters" where
  "release_freqs s prefixmap [] ps = Inr ps"
| "release_freqs s prefixmap (prefix' # rest) ps =
     (if isindep prefix' then
        (case (map_of prefixmap prefix', loc (values' s) prefix') of
           (Some useprefix, Some row) \<Rightarrow>
             (case (map_of ps (useprefix @ ''freq''), map_of ps (useprefix @ ''amp''),
                    map_of ps (useprefix @ ''phase'')) of
                (Some pf, Some pa, Some pp) \<Rightarrow>
                  release_freqs s prefixmap rest
                    (set_param (useprefix @ ''phase'') pp
                    (set_param (useprefix @ ''amp'') pa
                    (set_param (useprefix @ ''freq'') (pf\<lparr>vary := \<not> fixfreq row\<rparr>) ps)))
              | _ \<Rightarrow> Inl KeyError)
         | _ \<Rightarrow> Inl KeyError)
      else release_freqs s prefixmap rest ps)"

text \<open>
  The body of the loop of \<^verbatim>\<open>_update_values_from_fit\<close>, on the row of one included
  signal. Each cell is assigned in turn, so an exception leaves the cells assigned
  before it: a parameter without standard error (\<^verbatim>\<open>None\<close>) is a TypeError after the
  value has been stored. The arithmetic is that of the reals: \<^verbatim>\<open>phase %= 1.\<close> is the
  fractional part, which lies in \<open>[0, 1)\<close>, whereas the remainder of doubles is
  rounded and is \<open>1.0\<close> for a phase just below 0 (\<^verbatim>\<open>-1e-17 % 1.\<close>).
\<close>

definition rectify :: "entry \<Rightarrow> entry" where
  "rectify row = (if amp row < 0 then row\<lparr>amp := amp row * (- 1), phase := phase row - 0.5\<rparr>
                  else row)"

definition update_row :: "pyriod \<Rightarrow> parameters \<Rightarrow> string \<Rightarrow> entry \<Rightarrow> outcome \<times> entry" where
  "update_row s ps useprefix row =
     (case map_of ps (useprefix @ ''freq'') of
        None \<Rightarrow> (Raised KeyError, row)
      | Some pf \<Rightarrow>
     if freq_conversion s = 0 then (Raised ZeroDivisionError, row) else
     (let r1 = row\<lparr>freq := value' pf / freq_conversion s\<rparr> in
      case stderr pf of
        None \<Rightarrow> (Raised TypeError, r1)
      | Some ef \<Rightarrow>
     (let r2 = r1\<lparr>freqerr := Some (ef / freq_conversion s)\<rparr> in
      case map_of ps (useprefix @ ''amp'') of
        None \<Rightarrow> (Raised KeyError, r2)
      | Some pa \<Rightarrow>
     (let r3 = r2\<lparr>amp := value' pa\<rparr> in
      case stderr pa of
        None \<Rightarrow> (Raised TypeError, r3)
      | Some ea \<Rightarrow>
     (let r4 = r3\<lparr>amperr := Some ea\<rparr> in
      case map_of ps (useprefix @ ''phase'') of
        None \<Rightarrow> (Raised KeyError, r4)
      | Some pp \<Rightarrow>
     (let r5 = r4\<lparr>phase := value' pp\<rparr> in
      case stderr pp of
        None \<Rightarrow> (Raised TypeError, r5)
      | Some ep \<Rightarrow>
     (let r6 = rectify (r5\<lparr>phaseerr := Some ep\<rparr>);
          r7 = r6\<lparr>phase := phase r6 + tshift s * freq r6 * freq_conversion s\<rparr>
      in (Returned, r7\<lparr>phase := frac (phase r7)\<rparr>))))))))"

text \<open>
  \<^verbatim>\<open>self.values.loc[prefix, column] = v\<close> writes to every row that carries the label.
  The loop is reached from \<^verbatim>\<open>fit_model\<close>, which has read each label as a single row
  before; a label on several rows ends the loop of the model at once.
\<close>

definition loc_set :: "string \<Rightarrow> entry \<Rightarrow> dataframe \<Rightarrow> dataframe" where
  "loc_set prefix' row' df = map (\<lambda>row. if fst row = prefix' then (prefix', row') else row) df"

fun update_rows ::
  "pyriod \<Rightarrow> parameters \<Rightarrow> (string \<times> string) list \<Rightarrow> string list \<Rightarrow> dataframe \<Rightarrow>
   outcome \<times> dataframe" where
  "update_rows s ps prefixmap [] df = (Returned, df)"
| "update_rows s ps prefixmap (prefix' # rest) df =
     (case (map_of prefixmap prefix', loc df prefix') of
        (Some useprefix, Some row) \<Rightarrow>
          (case update_row s ps useprefix row of
             (Raised err, row') \<Rightarrow> (Raised err, loc_set prefix' row' df)
           | (Returned, row') \<Rightarrow> update_rows s ps prefixmap rest (loc_set prefix' row' df))
      | _ \<Rightarrow> (Raised KeyError, df))"

definition included :: "dataframe \<Rightarrow> string list" where
  "included df = map fst (filter (\<lambda>row. include' (snd row)) df)"

text \<open>
  \<^verbatim>\<open>_update_values_from_fit\<close>. After the loop the widget is given the table and asked
  for it again (\<^verbatim>\<open>_update_values_from_qgrid\<close>); it answers with the frame it was
  given.
\<close>

definition update_values_from_fit ::
  "library \<Rightarrow> pyriod \<Rightarrow> parameters \<Rightarrow> (string \<times> string) list \<Rightarrow> outcome \<times> pyriod" where
  "update_values_from_fit lib s ps prefixmap =
     (case update_rows s ps prefixmap (included (values' s)) (values' s) of
        (Raised err, df) \<Rightarrow> (Raised err, s\<lparr>values' := df\<rparr>)
      | (Returned, df) \<Rightarrow>
          update_values_from_qgrid lib (s\<lparr>values' := df\<rparr>)
            (convert_values_to_qgrid (s\<lparr>values' := df\<rparr>)))"

text \<open>
  \<^verbatim>\<open>fit_model\<close>: nothing to do without an included signal; otherwise two solves, the
  second started from the result of the first, and the result of the second is written
  to the table. \<^verbatim>\<open>result.success\<close> is never read.
\<close>

definition fit_model :: "library \<Rightarrow> pyriod \<Rightarrow> outcome \<times> pyriod" where
  "fit_model lib s =
     (if included (values' s) = [] then (Returned, s)
      else
        (case setup_params s (included (values' s)) 0 [] [] of
           Inl err \<Rightarrow> (Raised err, s)
         | Inr (ps, prefixmap) \<Rightarrow>
             (let model = List.map_filter (map_of prefixmap) (included (values' s));
                  data = map (\<lambda>y. y - np_mean (flux (lc_orig s))) (flux (lc_orig s));
                  x = map (\<lambda>t. t + tshift s) (time (lc_orig s))
              in case fit lib model data ps x of
                   Inl err \<Rightarrow> (Raised err, s)
                 | Inr result \<Rightarrow>
                     (case release_freqs s prefixmap (included (values' s)) (params result) of
                        Inl err \<Rightarrow> (Raised err, s)
                      | Inr ps2 \<Rightarrow>
                          (case fit lib model data ps2 x of
                             Inl err \<Rightarrow> (Raised err, s)
                           | Inr result2 \<Rightarrow>
                               update_values_from_fit lib s (params result2) prefixmap)))))"

subsection \<open>The constructor\<close>

text \<open>
  \<^verbatim>\<open>np.diff\<close>, \<^verbatim>\<open>np.median\<close> (NaN for no data) and \<^verbatim>\<open>np.arange\<close>: the points
  \<open>start + k * step\<close>, as many as numpy counts.
\<close>

definition np_diff :: "real list \<Rightarrow> real list" where
  "np_diff xs = map2 (\<lambda>a b. b - a) xs (tl xs)"

definition np_median :: "real list \<Rightarrow> real option" where
  "np_median xs =
     (let ys = sort xs; n = length ys
      in if n = 0 then None
         else if odd n then Some (ys ! (n div 2))
         else Some ((ys ! (n div 2 - 1) + ys ! (n div 2)) / 2))"

definition np_arange :: "library \<Rightarrow> real \<Rightarrow> real \<Rightarrow> real \<Rightarrow> real list" where
  "np_arange lib start stop step =
     map (\<lambda>k. start + real k * step) [0..<arange_length lib start stop step]"

text \<open>
  \<^verbatim>\<open>Pyriod.__init__\<close> with \<^verbatim>\<open>time\<close> and \<^verbatim>\<open>flux\<close>; \<open>conv\<close> is
  \<^verbatim>\<open>time_unit.to(1/freq_unit)\<close>. The result is \<open>None\<close> where the constructor does not
  complete: with times and fluxes of different lengths (lightkurve refuses them),
  without samples (\<^verbatim>\<open>np.min\<close> of nothing), with one sample (the median of no
  differences is NaN, and \<^verbatim>\<open>np.arange\<close> refuses it), and where the median difference,
  the span \<^verbatim>\<open>time[-1] - time[0]\<close>, the conversion or the oversampling factor is not
  positive. A step or a bound of \<^verbatim>\<open>np.arange\<close> is then zero, infinite or of the wrong
  sign, and the grid of frequencies is empty or does not run upwards from 0, which the
  periodogram routines refuse: for times that decrease the constructor ends in a
  ValueError.
\<close>

definition init ::
  "library \<Rightarrow> real list \<Rightarrow> real list \<Rightarrow> real \<Rightarrow> int \<Rightarrow> amp_unit \<Rightarrow> pyriod option" where
  "init lib time0 flux0 conv oversample amp_unit0 =
     (case np_median (np_diff time0) of
        None \<Rightarrow> None
      | Some dt \<Rightarrow>
          if length flux0 \<noteq> length time0 \<or> time0 = [] \<or> dt \<le> 0 \<or>
             last time0 - hd time0 \<le> 0 \<or> conv \<le> 0 \<or> oversample \<le> 0
          then None
          else
            (let orig = \<lparr>time = time0, flux = flux0\<rparr>;
                 time_samples = np_arange lib (Min (set time0)) (Max (set time0) + dt) dt;
                 sampled = \<lparr>time = time_samples,
                            flux = replicate (length time_samples) (np_mean flux0)\<rparr>;
                 observed = \<lparr>time = time0, flux = replicate (length time0) (np_mean flux0)\<rparr>;
                 resid = subtract orig observed;
                 fres0 = 1 / (last time0 - hd time0);
                 nyq0 = 1 / (2 * dt * conv);
                 freqs0 = np_arange lib 0 (nyq0 + fres0 / of_int oversample)
                            (fres0 / of_int oversample);
                 per0 = map (\<lambda>p. p * amp_conversion_of amp_unit0) (to_periodogram lib orig freqs0)
             in Some
                  \<lparr>oversample_factor = oversample, freq_conversion = conv,
                   amp_unit = amp_unit0,
                   lc_orig = orig, tshift = - np_mean time0,
                   lc_model_sampled = sampled, lc_model_observed = observed, lc_resid = resid,
                   fres = fres0, nyq = nyq0, freqs = freqs0, per_orig = per0,
                   per_model = map (\<lambda>p. p * amp_conversion_of amp_unit0)
                                 (to_periodogram lib observed freqs0),
                   per_resid = map (\<lambda>p. p * amp_conversion_of amp_unit0)
                                 (to_periodogram lib resid freqs0),
                   interpls = interp1d lib freqs0 per0,
                   values' = []\<rparr>))"

subsection \<open>Sequences of operations\<close>

datatype operation =
    Add_signal real "real option" "real option" bool bool bool bool "string option"
  | Add_combination string "real option" "real option" bool bool bool "string option"
  | Delete_rows "string list"
  | Fit_model
  | Update_values_from_qgrid "(string \<times> entry) list"
  | Update_pers

fun step :: "library \<Rightarrow> pyriod \<Rightarrow> operation \<Rightarrow> outcome \<times> pyriod" where
  "step lib s (Add_signal f a p ff fa fp inc i) = add_signal s f a p ff fa fp inc i"
| "step lib s (Add_combination c a p ff fa fp i) = add_combination s c a p ff fa fp i"
| "step lib s (Delete_rows is) = delete_rows s is"
| "step lib s Fit_model = fit_model lib s"
| "step lib s (Update_values_from_qgrid df) = update_values_from_qgrid lib s df"
| "step lib s Update_pers = (Returned, update_pers lib s)"

text \<open>
  A session: the operations one after the other, a table edit being the frame the
  widget hands to \<^verbatim>\<open>_update_values_from_qgrid\<close>. An exception ends the operation that
  raised it, not the session.
\<close>

fun run :: "library \<Rightarrow> pyriod \<Rightarrow> operation list \<Rightarrow> pyriod" where
  "run lib s [] = s"
| "run lib s (op # ops) = run lib (snd (step lib s op)) ops"

subsection \<open>A session to run examples in\<close>

text \<open>
  The state after construction on the four samples \<open>(0, 1), (1, -1), (2, 1), (3, -1)\<close>
  with \<^verbatim>\<open>amp_unit='relative'\<close>, unit frequency conversion and oversampling 1. The
  periodograms, which lightkurve computes, are set to zero here.
\<close>

definition session0 :: pyriod where
  "session0 =
     \<lparr>oversample_factor = 1, freq_conversion = 1, amp_unit = Relative,
      lc_orig = \<lparr>time = [0, 1, 2, 3], flux = [1, -1, 1, -1]\<rparr>,
      tshift = - 3 / 2,
      lc_model_sampled = \<lparr>time = [0, 1, 2, 3], flux = [0, 0, 0, 0]\<rparr>,
      lc_model_observed = \<lparr>time = [0, 1, 2, 3], flux = [0, 0, 0, 0]\<rparr>,
      lc_resid = \<lparr>time = [0, 1, 2, 3], flux = [1, -1, 1, -1]\<rparr>,
      fres = 1 / 3, nyq = 1 / 2, freqs = [0, 1 / 3, 2 / 3],
      per_orig = [0, 0, 0], per_model = [0, 0, 0], per_resid = [0, 0, 0],
      interpls = (\<lambda>x. 0),
      values' = []\<rparr>"

text \<open>
  Stand-ins for the third-party routines: a count of \<^verbatim>\<open>np.arange\<close> that is the
  ceiling of the exact quotient, a periodogram and an interpolant that are zero
  everywhere, and a solver that gives up after one step: it reports failure, has
  moved every free parameter by 1 and gives each parameter a standard error of 0.
\<close>

definition one_step :: "parameter \<Rightarrow> real" where
  "one_step p = (if vary p then value' p + 1 else value' p)"

definition lib0 :: library where
  "lib0 =
     \<lparr>arange_length = (\<lambda>start stop step. nat \<lceil>(stop - start) / step\<rceil>),
      to_periodogram = (\<lambda>lc frequency. map (\<lambda>f. 0) frequency),
      interp1d = (\<lambda>xs ys x. 0),
      fit = (\<lambda>model data ps x. Inr
        \<lparr>success = False,
         params = map (\<lambda>q. (fst q, (snd q)\<lparr>value' := one_step (snd q), stderr := Some 0\<rparr>))
                    ps\<rparr>)\<rparr>"

text \<open>
  The session with the signals \<open>f1\<close> at 3.0 and \<open>f2\<close> at 5.0, then with the combination
  \<open>f1+f2\<close>, then with the frequency cell of \<open>f1\<close> edited to 3.5 in the displayed table.
  The edited frame is taken with the rows in the order of the table; the widget may
  hand them back in another order (sorted by label), with the same cells under the
  same labels.
\<close>

definition session_f1 :: pyriod where
  "session_f1 = snd (add_signal session0 3 None None False False False True (Some ''f1''))"

definition session_f1_f2 :: pyriod where
  "session_f1_f2 = snd (add_signal session_f1 5 None None False False False True (Some ''f2''))"

definition combo_session :: pyriod where
  "combo_session = snd (add_combination session_f1_f2 ''f1+f2'' None None False False False None)"

definition edited_session :: pyriod where
  "edited_session =
     snd (update_values_from_qgrid lib0 combo_session
            (edit_freq ''f1'' 3.5 (convert_values_to_qgrid combo_session)))"

text \<open>
  The session with three signals under automatic labels, \<open>f0\<close>, \<open>f1\<close> and \<open>f2\<close>, from
  which \<open>f0\<close> has been deleted.
\<close>

definition session_f0_deleted :: pyriod where
  "session_f0_deleted =
     snd (delete_rows
       (snd (add_signal
         (snd (add_signal
           (snd (add_signal session0 1 None None False False False True None))
           2 None None False False False True None))
         3 None None False False False True None))
       [''f0''])"

text \<open>
  Two more solvers: one that reports success and otherwise answers as the one above,
  and one that answers as the one above but has no standard errors (\<^verbatim>\<open>stderr\<close> is
  \<^verbatim>\<open>None\<close>, as lmfit leaves it when it cannot estimate the uncertainties).
\<close>

definition lib_success :: library where
  "lib_success =
     lib0\<lparr>fit := (\<lambda>model data ps x.
       map_sum id (\<lambda>result. result\<lparr>success := True\<rparr>) (fit lib0 model data ps x))\<rparr>"

definition lib_no_stderr :: library where
  "lib_no_stderr =
     lib0\<lparr>fit := (\<lambda>model data ps x. Inr
       \<lparr>success = False,
        params = map (\<lambda>q. (fst q, (snd q)\<lparr>value' := one_step (snd q), stderr := None\<rparr>)) ps\<rparr>)\<rparr>"



section \<open>Properties\<close>

subsection \<open>The table\<close>


lemma amp_conversion_values [simp]: "amp_conversion (s\<lparr>values' := df\<rparr>) = amp_conversion s"
  by (simp add: amp_conversion_def)

lemma values_update_lcs: "values' (snd (update_lcs s)) = values' s"
  by (simp add: update_lcs_def Let_def split: prod.splits outcome.splits)

lemma values_update_pers: "values' (update_pers lib s) = values' s"
  by (simp add: update_pers_def)

lemma values_update_values_from_qgrid:
  "values' (snd (update_values_from_qgrid lib s changed_df)) = convert_qgrid_to_values s changed_df"
proof (cases "update_lcs (s\<lparr>values' := convert_qgrid_to_values s changed_df\<rparr>)")
  case (Pair out s1)
  with values_update_lcs [of "s\<lparr>values' := convert_qgrid_to_values s changed_df\<rparr>"]
  have "values' s1 = convert_qgrid_to_values s changed_df" by simp
  with Pair show ?thesis
    by (cases out) (simp_all add: update_values_from_qgrid_def values_update_pers)
qed

text \<open>
  C1, as stated, fails. With \<open>f1\<close> at 3.0 and \<open>f2\<close> at 5.0 the combination \<open>f1+f2\<close> is
  created at 8.0. After the frequency of \<open>f1\<close> is changed to 3.5 in the table, the row of
  the combination still holds 8.0, not 8.5: its frequency is not the expression over
  the current frequencies.
\<close>

theorem combination_frequency_stale_after_edit:
  "map_option freq (loc (values' edited_session) ''f1'') = Some 3.5 \<and>
   map_option freq (loc (values' edited_session) ''f2'') = Some 5 \<and>
   map_option freq (loc (values' edited_session) ''f1+f2'') = Some 8 \<and>
   map_option freq (loc (values' edited_session) ''f1+f2'') \<noteq> Some 8.5"
  unfolding edited_session_def values_update_values_from_qgrid
  by code_simp

text \<open>
  C1, amended. The frequency of a combination is computed once, by
  \<^verbatim>\<open>add_combination\<close>, from the frequencies the referenced rows hold at that moment:
  \<open>f1+f2\<close> over 3.0 and 5.0 is stored as exactly 8.0. From then on it is a stored number
  like any other: an edit of the table replaces the table by the edited frame, cell
  for cell (amplitudes converted from the display unit), and recomputes no frequency,
  so after \<open>f1\<close> is set to 3.5 the combination still holds 8.0. Only \<^verbatim>\<open>fit_model\<close>
  links the frequencies again: the frequency parameter of the combination, \<open>c0freq\<close>,
  is tied to the expression \<open>f1freq+f2freq\<close> over the parameters of \<open>f1\<close> and \<open>f2\<close>.
\<close>

theorem combination_frequency_computed_at_creation:
  "values' (snd (update_values_from_qgrid lib s changed_df)) = convert_qgrid_to_values s changed_df \<and>
   map (\<lambda>row. (fst row, freq (snd row))) (values' combo_session) =
     [(''f1'', 3), (''f2'', 5), (''f1+f2'', 8)] \<and>
   map (\<lambda>row. (fst row, freq (snd row))) (values' edited_session) =
     [(''f1'', 3.5), (''f2'', 5), (''f1+f2'', 8)] \<and>
   (case setup_params combo_session (included (values' combo_session)) 0 [] [] of
      Inl err \<Rightarrow> None
    | Inr (ps, prefixmap) \<Rightarrow> map_option expr (map_of ps ''c0freq'')) =
     Some (Some ''f1freq+f2freq'')"
proof -
  have "map (\<lambda>row. (fst row, freq (snd row))) (values' combo_session) =
     [(''f1'', 3), (''f2'', 5), (''f1+f2'', 8)]"
    by code_simp
  moreover have "map (\<lambda>row. (fst row, freq (snd row))) (values' edited_session) =
     [(''f1'', 3.5), (''f2'', 5), (''f1+f2'', 8)]"
    unfolding edited_session_def values_update_values_from_qgrid by code_simp
  moreover have "(case setup_params combo_session (included (values' combo_session)) 0 [] [] of
      Inl err \<Rightarrow> None
    | Inr (ps, prefixmap) \<Rightarrow> map_option expr (map_of ps ''c0freq'')) =
     Some (Some ''f1freq+f2freq'')"
    by code_simp
  ultimately show ?thesis
    by (simp only: values_update_values_from_qgrid simp_thms)
qed

text \<open>
  C2, as stated, fails: \<^verbatim>\<open>add_signal\<close> with the frequency \<open>-1\<close> does not raise, and
  the table, empty before, holds the row \<open>f0\<close> with frequency \<open>-1\<close>.
\<close>

theorem add_signal_negative_frequency_accepted:
  "fst (add_signal session0 (- 1) None None False False False True None) = Returned \<and>
   values' session0 = [] \<and>
   map (\<lambda>row. (fst row, freq (snd row)))
     (values' (snd (add_signal session0 (- 1) None None False False False True None))) =
   [(''f0'', - 1)]"
  by code_simp

text \<open>
  C2, amended. \<^verbatim>\<open>add_signal\<close> does not validate the frequency: for every frequency,
  positive or not, the call rejects nothing and appends one row that carries this
  frequency; the rows that were in the table are unchanged.
\<close>

theorem add_signal_accepts_every_frequency:
  "fst (add_signal s f a p ff fa fp inc i) = Returned \<and>
   (\<exists>key row. values' (snd (add_signal s f a p ff fa fp inc i)) = values' s @ [(key, row)] \<and>
      freq row = f)"
  by (simp add: add_signal_def Let_def)

text \<open>
  C3 (unknown tokens). \<^verbatim>\<open>add_combination\<close> does not compare the tokens with the labels
  of the table: it replaces each known label wherever it occurs in the text and leaves
  the rest to \<^verbatim>\<open>eval\<close>. With \<open>f1\<close> at 3.0 as the only row, the token \<open>f10\<close> of the
  expression \<open>f1+f10\<close> is neither a number nor a label, but the replacement of \<open>f1\<close>
  turns the text into \<open>3.0+3.00\<close>: the call returns normally and the table gains the row
  \<open>f1+f10\<close> with frequency 6.0.
\<close>

theorem add_combination_accepts_unknown_token:
  "index (values' session_f1) = [''f1''] \<and>
   re_split ''f1+f10'' = [''f1'', ''f10''] \<and>
   fst (add_combination session_f1 ''f1+f10'' None None False False False None) = Returned \<and>
   map (\<lambda>row. (fst row, freq (snd row)))
     (values' (snd (add_combination session_f1 ''f1+f10'' None None False False False None))) =
   [(''f1'', 3), (''f1+f10'', 6)]"
  by code_simp

lemma str_nat_digit: "n < 10 \<Longrightarrow> str_nat n = [digit_char n]"
  by (simp add: str_nat.simps)

text \<open>
  C4 (automatic labels). The automatic label is \<^verbatim>\<open>"f{}".format(len(self.values))\<close>, the
  number of rows, not the next unused number (the source marks this with a TODO).
  After three signals \<open>f0\<close>, \<open>f1\<close>, \<open>f2\<close> and the deletion of \<open>f0\<close>, the next signal is
  labelled \<open>f2\<close> again, and the table holds two rows with that label.
\<close>

theorem auto_key_repeats_after_delete:
  "index (values' session_f0_deleted) = [''f1'', ''f2''] \<and>
   index (values' (snd (add_signal session_f0_deleted 4 None None False False False True None))) =
   [''f1'', ''f2'', ''f2'']"
  by code_simp

text \<open>
  Where the label is new to the table, adding a signal under it and deleting the label
  gives the state back.
\<close>

lemma add_signal_delete_rows_fresh:
  assumes "k \<notin> set (index (values' s))"
  shows "delete_rows (snd (add_signal s f a p ff fa fp inc (Some k))) [k] = (Returned, s)"
proof -
  from assms have "filter (\<lambda>row. fst row \<noteq> k) (values' s) = values' s"
    by (auto simp: index_def filter_id_conv)
  then show ?thesis
    by (simp add: add_signal_def delete_rows_def drop_rows_def index_def Let_def)
qed

text \<open>
  C8 (round trip). In the same session, \<^verbatim>\<open>add_signal\<close> followed by \<^verbatim>\<open>delete_rows\<close> of
  the label it assigned does not give the table back: the new row is labelled \<open>f2\<close>,
  and the deletion removes both rows with that label, the new one and the old one.
\<close>

theorem add_signal_delete_rows_not_round_trip:
  "index (values' session_f0_deleted) = [''f1'', ''f2''] \<and>
   fst (last (values' (snd (add_signal session_f0_deleted 4 None None False False False True None))))
     = ''f2'' \<and>
   index (values' (snd (delete_rows
     (snd (add_signal session_f0_deleted 4 None None False False False True None)) [''f2'']))) =
   [''f1'']"
  by code_simp

text \<open>
  C10 (arguments that are not passed on). \<^verbatim>\<open>add_combination\<close> hands \<^verbatim>\<open>add_signal\<close>
  the evaluated frequency, the amplitude and the expression, and none of \<^verbatim>\<open>phase\<close>,
  \<^verbatim>\<open>fixfreq\<close>, \<^verbatim>\<open>fixamp\<close>, \<^verbatim>\<open>fixphase\<close>. Yet \<^verbatim>\<open>fixfreq\<close> reaches the row: \<^verbatim>\<open>eval\<close> runs
  in the scope of \<^verbatim>\<open>add_combination\<close>, where \<^verbatim>\<open>fixfreq\<close> is a local name. With \<open>f1\<close> at
  3.0, the expression \<open>f1+fixfreq\<close> and the amplitude 1, the row is created at frequency
  4.0 when the argument is true and at 3.0 when it is false. Its other cells are the
  defaults: phase 0.5, nothing fixed, included.
\<close>

theorem add_combination_fixfreq_reaches_entry:
  "map (\<lambda>row. (fst row, freq (snd row)))
     (values' (snd (add_combination session_f1 ''f1+fixfreq'' (Some 1) None True False False None))) =
   [(''f1'', 3), (''f1+fixfreq'', 4)] \<and>
   map (\<lambda>row. (fst row, freq (snd row)))
     (values' (snd (add_combination session_f1 ''f1+fixfreq'' (Some 1) None False False False None))) =
   [(''f1'', 3), (''f1+fixfreq'', 3)] \<and>
   map (\<lambda>row. (phase (snd row), fixfreq (snd row), fixamp (snd row), fixphase (snd row),
               include' (snd row)))
     (values' (snd (add_combination session_f1 ''f1+fixfreq'' (Some 1) None True False False None))) =
   [(0.5, False, False, False, True), (0.5, False, False, False, True)]"
  by code_simp

subsection \<open>Fitting\<close>

lemmas table_defs = session_f1_def session0_def add_signal_def lib0_def fit_model_def included_def
  amp_conversion_def
  loc_def isindep_def is_digit_def set_param_def np_mean_def update_values_from_fit_def
  update_row_def rectify_def loc_set_def update_values_from_qgrid_def convert_values_to_qgrid_def
  convert_qgrid_to_values_def update_lcs_def index_def update_pers_def List.map_filter_def

lemma update_pers_cong:
  "to_periodogram lib' = to_periodogram lib \<Longrightarrow> update_pers lib' s = update_pers lib s"
  by (simp add: update_pers_def)

lemma update_values_from_qgrid_cong:
  assumes "to_periodogram lib' = to_periodogram lib"
  shows "update_values_from_qgrid lib' s df = update_values_from_qgrid lib s df"
  unfolding update_values_from_qgrid_def update_pers_cong [OF assms] by (rule refl)

lemma update_values_from_fit_cong:
  assumes "to_periodogram lib' = to_periodogram lib"
  shows "update_values_from_fit lib' s ps pm = update_values_from_fit lib s ps pm"
  unfolding update_values_from_fit_def update_values_from_qgrid_cong [OF assms] by (rule refl)

text \<open>
  C5, as stated, fails. The solver of \<open>lib0\<close> never reports success, yet \<^verbatim>\<open>fit_model\<close>
  returns normally and the row \<open>f1\<close>, at frequency 3 and amplitude 1 before, holds what
  the solver answered: frequency 4 and amplitude 3. With the solver of \<open>lib_no_stderr\<close>, which gives no
  standard errors, the call ends in a TypeError after the frequency of \<open>f1\<close> has been
  overwritten and before its amplitude and phase are: the table is neither unchanged
  nor updated as a whole.
\<close>

theorem fit_commits_unconverged_solve:
  "(\<forall>model data ps x. \<exists>result. fit lib0 model data ps x = Inr result \<and> \<not> success result) \<and>
   map (\<lambda>row. (fst row, freq (snd row), amp (snd row), phase (snd row))) (values' session_f1) =
     [(''f1'', 3, 1, 0.5)] \<and>
   fst (fit_model lib0 session_f1) = Returned \<and>
   map (\<lambda>row. (fst row, freq (snd row), amp (snd row), phase (snd row)))
     (values' (snd (fit_model lib0 session_f1))) = [(''f1'', 4, 3, 0.5)] \<and>
   (\<forall>model data ps x.
      \<exists>result. fit lib_no_stderr model data ps x = Inr result \<and> \<not> success result) \<and>
   fst (fit_model lib_no_stderr session_f1) = Raised TypeError \<and>
   map (\<lambda>row. (fst row, freq (snd row), freqerr (snd row), amp (snd row), phase (snd row)))
     (values' (snd (fit_model lib_no_stderr session_f1))) = [(''f1'', 4, None, 1, 0.5)]"
  by (simp add: table_defs lib_no_stderr_def one_step_def Let_def frac_def)

text \<open>
  C5, amended. \<^verbatim>\<open>fit_model\<close> does not read whether the solver converged and raises no
  FitConvergenceError: two solvers that answer with the same parameters lead to the
  same outcome and the same state, whatever success they report. A solve reported as
  failed is written to the table as a converged one is.
\<close>

theorem fit_model_ignores_success:
  assumes "to_periodogram lib' = to_periodogram lib"
    and "\<And>model data ps x.
      map_sum id params (fit lib' model data ps x) = map_sum id params (fit lib model data ps x)"
  shows "fit_model lib' s = fit_model lib s"
proof -
  have u: "\<And>ps pm. update_values_from_fit lib' s ps pm = update_values_from_fit lib s ps pm"
    by (rule update_values_from_fit_cong [OF assms(1)])
  have c: "\<And>model data ps x g.
      (case fit lib' model data ps x of Inl err \<Rightarrow> (Raised err, s) | Inr r \<Rightarrow> g (params r)) =
      (case fit lib model data ps x of Inl err \<Rightarrow> (Raised err, s) | Inr r \<Rightarrow> g (params r))"
  proof -
    fix model data ps x and g :: "parameters \<Rightarrow> outcome \<times> pyriod"
    from assms(2) [of model data ps x] show
      "(case fit lib' model data ps x of Inl err \<Rightarrow> (Raised err, s) | Inr r \<Rightarrow> g (params r)) =
       (case fit lib model data ps x of Inl err \<Rightarrow> (Raised err, s) | Inr r \<Rightarrow> g (params r))"
      by (cases "fit lib' model data ps x"; cases "fit lib model data ps x") simp_all
  qed
  show ?thesis
    unfolding fit_model_def Let_def u
    by (simp add: c [where g = "\<lambda>p. update_values_from_fit lib s p pm" for pm]
        c [where g = "\<lambda>p. case release_freqs s pm inc p of Inl err \<Rightarrow> (Raised err, s)
             | Inr ps2 \<Rightarrow> h ps2" for pm inc h]
        split: sum.splits prod.splits)
qed

theorem fit_model_ignores_success_witness:
  "to_periodogram lib_success = to_periodogram lib0 \<and>
   (\<forall>model data ps x.
      map_sum id params (fit lib_success model data ps x) =
        map_sum id params (fit lib0 model data ps x) \<and>
      (\<exists>r r'. fit lib_success model data ps x = Inr r \<and> fit lib0 model data ps x = Inr r' \<and>
         success r \<and> \<not> success r')) \<and>
   fit_model lib_success session_f1 = fit_model lib0 session_f1"
proof -
  have a: "to_periodogram lib_success = to_periodogram lib0"
    by (simp add: lib_success_def)
  have b: "\<And>model data ps x.
      map_sum id params (fit lib_success model data ps x) =
        map_sum id params (fit lib0 model data ps x)"
    by (simp add: lib_success_def lib0_def)
  have "\<And>model data ps x.
      \<exists>r r'. fit lib_success model data ps x = Inr r \<and> fit lib0 model data ps x = Inr r' \<and>
         success r \<and> \<not> success r'"
    by (simp add: lib_success_def lib0_def)
  with a b fit_model_ignores_success [of lib_success lib0 session_f1, OF a b]
  show ?thesis by blast
qed

subsection \<open>Rectification\<close>













subsection \<open>The frequency grid\<close>

text \<open>The session of the examples is what the constructor builds.\<close>

lemma session0_constructed: "init lib0 [0, 1, 2, 3] [1, - 1, 1, - 1] 1 1 Relative = Some session0"
  by (simp add: init_def np_diff_def np_median_def np_arange_def np_mean_def subtract_def
      session0_def lib0_def Let_def upt_rec [of _ "numeral n" for n])














subsection \<open>What never changes\<close>

lemma update_lcs_frame:
  "lc_orig (snd (update_lcs s)) = lc_orig s \<and> per_orig (snd (update_lcs s)) = per_orig s \<and>
   freqs (snd (update_lcs s)) = freqs s"
  by (simp add: update_lcs_def Let_def split: prod.splits outcome.splits)

lemma update_pers_frame:
  "lc_orig (update_pers lib s) = lc_orig s \<and> per_orig (update_pers lib s) = per_orig s \<and>
   freqs (update_pers lib s) = freqs s"
  by (simp add: update_pers_def)

lemma update_values_from_qgrid_frame:
  "lc_orig (snd (update_values_from_qgrid lib s df)) = lc_orig s \<and>
   per_orig (snd (update_values_from_qgrid lib s df)) = per_orig s \<and>
   freqs (snd (update_values_from_qgrid lib s df)) = freqs s"
proof (cases "update_lcs (s\<lparr>values' := convert_qgrid_to_values s df\<rparr>)")
  case (Pair out s1)
  with update_lcs_frame [of "s\<lparr>values' := convert_qgrid_to_values s df\<rparr>"]
  have "lc_orig s1 = lc_orig s \<and> per_orig s1 = per_orig s \<and> freqs s1 = freqs s" by simp
  with Pair show ?thesis
    by (cases out) (simp_all add: update_values_from_qgrid_def update_pers_frame)
qed

lemma update_values_from_fit_frame:
  "lc_orig (snd (update_values_from_fit lib s ps pm)) = lc_orig s \<and>
   per_orig (snd (update_values_from_fit lib s ps pm)) = per_orig s \<and>
   freqs (snd (update_values_from_fit lib s ps pm)) = freqs s"
proof (cases "update_rows s ps pm (included (values' s)) (values' s)")
  case (Pair out df)
  then show ?thesis
    using update_values_from_qgrid_frame [of lib "s\<lparr>values' := df\<rparr>"]
    by (cases out) (simp_all add: update_values_from_fit_def)
qed

lemma fit_model_frame:
  "lc_orig (snd (fit_model lib s)) = lc_orig s \<and> per_orig (snd (fit_model lib s)) = per_orig s \<and>
   freqs (snd (fit_model lib s)) = freqs s"
  by (simp add: fit_model_def Let_def update_values_from_fit_frame split: sum.splits prod.splits)

lemma add_signal_frame:
  "lc_orig (snd (add_signal s f a p ff fa fp inc i)) = lc_orig s \<and>
   per_orig (snd (add_signal s f a p ff fa fp inc i)) = per_orig s \<and>
   freqs (snd (add_signal s f a p ff fa fp inc i)) = freqs s"
  by (simp add: add_signal_def Let_def)

lemma add_combination_frame:
  "lc_orig (snd (add_combination s c a p ff fa fp i)) = lc_orig s \<and>
   per_orig (snd (add_combination s c a p ff fa fp i)) = per_orig s \<and>
   freqs (snd (add_combination s c a p ff fa fp i)) = freqs s"
  by (simp add: add_combination_def Let_def add_signal_frame
      split: option.splits sum.splits pyval.splits)

lemma delete_rows_frame:
  "lc_orig (snd (delete_rows s is)) = lc_orig s \<and> per_orig (snd (delete_rows s is)) = per_orig s \<and>
   freqs (snd (delete_rows s is)) = freqs s"
  by (simp add: delete_rows_def)

lemma step_frame:
  "lc_orig (snd (step lib s op)) = lc_orig s \<and> per_orig (snd (step lib s op)) = per_orig s \<and>
   freqs (snd (step lib s op)) = freqs s"
  by (cases op)
     (simp_all add: add_signal_frame add_combination_frame delete_rows_frame fit_model_frame
        update_values_from_qgrid_frame update_pers_frame)

lemma run_frame:
  "lc_orig (run lib s ops) = lc_orig s \<and> per_orig (run lib s ops) = per_orig s \<and>
   freqs (run lib s ops) = freqs s"
  by (induction ops arbitrary: s) (simp_all add: step_frame)

text \<open>
  C9 (the originals). Whatever operations are run from a state - adding signals and
  combinations, deleting rows, fitting, editing the table, recomputing the
  periodograms - the original series, its periodogram and the frequency grid are those
  of the start; and the periodograms of the model and of the residuals, whenever they
  are recomputed, are taken on that grid.
\<close>

theorem originals_and_grid_never_change:
  "lc_orig (run lib s ops) = lc_orig s \<and>
   per_orig (run lib s ops) = per_orig s \<and>
   freqs (run lib s ops) = freqs s \<and>
   per_model (update_pers lib (run lib s ops)) =
     map (\<lambda>p. p * amp_conversion (run lib s ops))
       (to_periodogram lib (lc_model_observed (run lib s ops)) (freqs s)) \<and>
   per_resid (update_pers lib (run lib s ops)) =
     map (\<lambda>p. p * amp_conversion (run lib s ops))
       (to_periodogram lib (lc_resid (run lib s ops)) (freqs s))"
  using run_frame [of lib s ops] by (simp add: update_pers_def)

end
